theory Spec2Isabelle
  imports Main "HOL-Library.Sublist"
begin

section \<open>spotifyctl: the status formatter and the metadata extraction\<close>

text \<open>
  A shallow embedding of \<^verbatim>\<open>src/spotifyctl.c\<close>. The functions \<^verbatim>\<open>format_output\<close>,
  \<^verbatim>\<open>get_song_title_from_metadata\<close>, \<^verbatim>\<open>get_song_artist_from_metadata\<close> and
  \<^verbatim>\<open>get_status\<close> are translated from the C text. The helpers they call live in
  \<^verbatim>\<open>utils.c\<close>, which is not among the sources; each of them is modelled from the
  specification and marked so.
\<close>

subsection \<open>Constants and C integers\<close>

definition INT_MAX :: int where
  "INT_MAX = 2147483647"

definition TOKEN_TITLE :: string where
  "TOKEN_TITLE = ''%title%''"

definition TOKEN_ARTIST :: string where
  "TOKEN_ARTIST = ''%artist%''"

definition DEFAULT_PLACEHOLDER :: string where
  "DEFAULT_PLACEHOLDER = ''Spotify''"

definition METADATA_TITLE_KEY :: string where
  "METADATA_TITLE_KEY = ''xesam:title''"

definition METADATA_ARTIST_KEY :: string where
  "METADATA_ARTIST_KEY = ''xesam:artist''"

text \<open>\<^verbatim>\<open>strlen\<close>: the number of bytes of a string, as a mathematical integer.\<close>

definition strlen :: "string \<Rightarrow> int" where
  "strlen s = int (length s)"

text \<open>
  Storing a value in a C \<^verbatim>\<open>int\<close> (32 bits, two's complement): the value is reduced
  modulo \<open>2^32\<close> into \<open>-2^31 .. 2^31 - 1\<close>. The source stores \<^verbatim>\<open>size_t\<close> results in
  \<^verbatim>\<open>int\<close> variables and multiplies \<^verbatim>\<open>int\<close>s; a signed product out of range is
  undefined in C and is modelled as wrapping like the conversions do.
\<close>

definition c_int :: "int \<Rightarrow> int" where
  "c_int x = (x + 2147483648) mod 4294967296 - 2147483648"

subsection \<open>The helpers of utils.c\<close>

text \<open>
  Modelled from the spec: \<^verbatim>\<open>num_of_matches\<close> (utils.c is missing). The occurrence count
  of a token in a template: the scan runs left to right and continues after each
  occurrence found, so the counted occurrences are exactly those that
  \<^verbatim>\<open>str_replace_all\<close> replaces. The tokens passed by \<^verbatim>\<open>format_output\<close> are never
  empty; for an empty token the model counts nothing.
\<close>

function num_of_matches :: "string \<Rightarrow> string \<Rightarrow> nat" where
  "num_of_matches [] tok = 0"
| "num_of_matches (c # cs) tok =
     (if tok \<noteq> [] \<and> prefix tok (c # cs)
      then Suc (num_of_matches (drop (length tok) (c # cs)) tok)
      else num_of_matches cs tok)"
  by pat_completeness auto
termination
  by (relation "measure (\<lambda>(str, tok). length str)") (auto simp: Suc_diff_le)

text \<open>
  Modelled from the spec: \<^verbatim>\<open>str_replace_all\<close> (utils.c is missing). Token substitution
  is literal, covers all occurrences, goes left to right, and never scans the
  replacement text it has inserted.
\<close>

function str_replace_all :: "string \<Rightarrow> string \<Rightarrow> string \<Rightarrow> string" where
  "str_replace_all [] tok repl = []"
| "str_replace_all (c # cs) tok repl =
     (if tok \<noteq> [] \<and> prefix tok (c # cs)
      then repl @ str_replace_all (drop (length tok) (c # cs)) tok repl
      else c # str_replace_all cs tok repl)"
  by pat_completeness auto
termination
  by (relation "measure (\<lambda>(str, tok, repl). length str)") (auto simp: Suc_diff_le)

text \<open>
  Modelled from the spec: \<^verbatim>\<open>str_trunc\<close> (utils.c is missing). An unbounded length is
  \<^verbatim>\<open>INT_MAX\<close>, the default of every length option in \<^verbatim>\<open>main\<close>. The string is
  returned unchanged when the length is unbounded or the string fits; otherwise
  the call fails (\<^verbatim>\<open>NULL\<close>, here \<open>None\<close>) when the marker alone is longer than the
  budget, and else keeps the first \<open>max_len - len(marker)\<close> characters and
  appends the whole marker.
\<close>

definition str_trunc :: "string \<Rightarrow> int \<Rightarrow> string \<Rightarrow> string option" where
  "str_trunc str max_len trunc =
     (if max_len = INT_MAX \<or> strlen str \<le> max_len then Some str
      else if strlen trunc > max_len then None
      else Some (take (nat (max_len - strlen trunc)) str @ trunc))"

subsection \<open>The metadata reply and its iterator\<close>

text \<open>
  A D-Bus value as far as the extraction looks at it: a string, a variant around
  one value, an array, a dict entry (key and value), or any other basic value
  (numbers, object paths and so on).
\<close>

datatype dbus_value =
    DString string
  | DVariant dbus_value
  | DArray "dbus_value list"
  | DDictEntry dbus_value dbus_value
  | DBasic

datatype dbus_type =
    DBUS_TYPE_STRING
  | DBUS_TYPE_VARIANT
  | DBUS_TYPE_ARRAY
  | DBUS_TYPE_DICT_ENTRY
  | DBUS_TYPE_OTHER

text \<open>
  A \<^verbatim>\<open>DBusMessageIter\<close> is the list of the values from the current one to the end of
  its container; the empty list is an iterator past the end. A message is the list
  of its arguments, which is also what \<^verbatim>\<open>dbus_message_iter_init\<close> yields.
\<close>

type_synonym iter = "dbus_value list"

fun arg_type :: "dbus_value \<Rightarrow> dbus_type" where
  "arg_type (DString s) = DBUS_TYPE_STRING"
| "arg_type (DVariant v) = DBUS_TYPE_VARIANT"
| "arg_type (DArray vs) = DBUS_TYPE_ARRAY"
| "arg_type (DDictEntry k v) = DBUS_TYPE_DICT_ENTRY"
| "arg_type DBasic = DBUS_TYPE_OTHER"

fun recurse :: "dbus_value \<Rightarrow> iter" where
  "recurse (DVariant v) = [v]"
| "recurse (DArray vs) = vs"
| "recurse (DDictEntry k v) = [k, v]"
| "recurse (DString s) = []"
| "recurse DBasic = []"

text \<open>
  Modelled from the spec: \<^verbatim>\<open>iter_try_step_into_type\<close> (utils.c is missing). One
  wrapper of the expected type is unwrapped; the step fails when the current value
  is absent or of another type. The C function returns a truth value and moves the
  iterator; the model returns the moved iterator, or \<open>None\<close> for false.
\<close>

fun iter_try_step_into_type :: "iter \<Rightarrow> dbus_type \<Rightarrow> iter option" where
  "iter_try_step_into_type [] ty = None"
| "iter_try_step_into_type (v # rest) ty =
     (if arg_type v = ty then Some (recurse v) else None)"

text \<open>
  Modelled from the spec: \<^verbatim>\<open>iter_try_step_to_key\<close> (utils.c is missing). A linear scan
  of the array's dict entries for one whose key string equals the target; on
  success the iterator stands on that entry's value.
\<close>

fun iter_try_step_to_key :: "iter \<Rightarrow> string \<Rightarrow> iter option" where
  "iter_try_step_to_key [] key = None"
| "iter_try_step_to_key (DDictEntry (DString k) v # rest) key =
     (if k = key then Some [v] else iter_try_step_to_key rest key)"
| "iter_try_step_to_key (e # rest) key = iter_try_step_to_key rest key"

text \<open>
  Modelled from the spec: \<^verbatim>\<open>iter_get_string\<close> (utils.c is missing). The terminal node
  is read as a string; \<^verbatim>\<open>NULL\<close> (\<open>None\<close>) when there is none or it is not a string.
\<close>

fun iter_get_string :: "iter \<Rightarrow> string option" where
  "iter_get_string (DString s # rest) = Some s"
| "iter_get_string it = None"

text \<open>
  The two extraction functions of the source. Each starts from the root of the
  reply; the chain of \<^verbatim>\<open>&&\<close> stops at the first step that fails, and the result
  stays \<^verbatim>\<open>NULL\<close>.
\<close>

definition get_song_title_from_metadata :: "dbus_value list \<Rightarrow> string option" where
  "get_song_title_from_metadata msg =
     (case iter_try_step_into_type msg DBUS_TYPE_VARIANT of
        None \<Rightarrow> None
      | Some it1 \<Rightarrow>
     (case iter_try_step_into_type it1 DBUS_TYPE_ARRAY of
        None \<Rightarrow> None
      | Some it2 \<Rightarrow>
     (case iter_try_step_to_key it2 METADATA_TITLE_KEY of
        None \<Rightarrow> None
      | Some it3 \<Rightarrow>
     (case iter_try_step_into_type it3 DBUS_TYPE_VARIANT of
        None \<Rightarrow> None
      | Some it4 \<Rightarrow> iter_get_string it4))))"

definition get_song_artist_from_metadata :: "dbus_value list \<Rightarrow> string option" where
  "get_song_artist_from_metadata msg =
     (case iter_try_step_into_type msg DBUS_TYPE_VARIANT of
        None \<Rightarrow> None
      | Some it1 \<Rightarrow>
     (case iter_try_step_into_type it1 DBUS_TYPE_ARRAY of
        None \<Rightarrow> None
      | Some it2 \<Rightarrow>
     (case iter_try_step_to_key it2 METADATA_ARTIST_KEY of
        None \<Rightarrow> None
      | Some it3 \<Rightarrow>
     (case iter_try_step_into_type it3 DBUS_TYPE_VARIANT of
        None \<Rightarrow> None
      | Some it4 \<Rightarrow>
     (case iter_try_step_into_type it4 DBUS_TYPE_ARRAY of
        None \<Rightarrow> None
      | Some it5 \<Rightarrow> iter_get_string it5)))))"

subsection \<open>format_output\<close>

text \<open>
  What a call of \<^verbatim>\<open>format_output\<close> ends in: it returns a string; or it calls
  \<^verbatim>\<open>exit(1)\<close>, after writing a message to the standard error stream or without
  one; or it hands a null pointer to a C string function, which is undefined
  behaviour (in practice the process is killed). A failing \<^verbatim>\<open>malloc\<close> is not
  modelled.
\<close>

datatype outcome =
    Output string
  | Exit1 "string option"
  | NullDeref

definition TITLE_TRUNC_FAILED :: string where
  "TITLE_TRUNC_FAILED =
     ''Failed to truncate title. Please make sure the trunc string is smaller than the max title length.''
     @ [CHR 0x0A]"

definition ARTIST_TRUNC_FAILED :: string where
  "ARTIST_TRUNC_FAILED =
     ''Failed to truncate artist. Please make sure the trunc string is smaller than the max artist length.''
     @ [CHR 0x0A]"

definition OUTPUT_TRUNC_FAILED :: string where
  "OUTPUT_TRUNC_FAILED =
     ''Failed to truncate output. Please make sure the trunc string is smaller than the max output length.''
     @ [CHR 0x0A]"

text \<open>
  The three ways through \<^verbatim>\<open>format_output\<close>, and the tests that choose between them
  (lines 175 to 203 of the source), with every conversion to \<^verbatim>\<open>int\<close> written out.
\<close>

datatype branch = PlaceholderBranch | TruncationBranch | SubstitutionBranch

definition select_branch :: "string \<Rightarrow> string \<Rightarrow> int \<Rightarrow> string \<Rightarrow> branch" where
  "select_branch artist title max_length format =
     (let artist_len = c_int (strlen artist);
          title_len = c_int (strlen title)
      in if artist_len = 0 \<and> title_len = 0 then PlaceholderBranch
         else
           let NUM_OF_ARTIST_TOK = c_int (int (num_of_matches format TOKEN_ARTIST));
               NUM_OF_TITLE_TOK = c_int (int (num_of_matches format TOKEN_TITLE));
               ARTIST_REPL_DIFF = c_int (strlen artist - strlen TOKEN_ARTIST);
               TITLE_REPL_DIFF = c_int (strlen title - strlen TOKEN_TITLE);
               TOTAL_UNTRUNC_LENGTH =
                 c_int (strlen format
                        + c_int (NUM_OF_ARTIST_TOK * ARTIST_REPL_DIFF)
                        + c_int (NUM_OF_TITLE_TOK * TITLE_REPL_DIFF))
           in if max_length = INT_MAX \<or> TOTAL_UNTRUNC_LENGTH > max_length
              then TruncationBranch
              else SubstitutionBranch)"

text \<open>
  The truncation branch (lines 204 to 246). For the title, \<^verbatim>\<open>exit(1)\<close> stands inside
  the test of \<^verbatim>\<open>SUPPRESS_ERRORS\<close>, so with suppression on the run goes on with a null
  \<^verbatim>\<open>trunc_title\<close>, which \<^verbatim>\<open>str_replace_all\<close> then receives as its replacement. For
  the artist and for the whole output, \<^verbatim>\<open>exit(1)\<close> stands after the test.
\<close>

definition truncation_branch ::
  "bool \<Rightarrow> string \<Rightarrow> string \<Rightarrow> int \<Rightarrow> int \<Rightarrow> int \<Rightarrow> string \<Rightarrow> string \<Rightarrow> outcome" where
  "truncation_branch SUPPRESS_ERRORS artist title max_artist_length max_title_length
       max_length format trunc =
     (let trunc_title = str_trunc title max_title_length trunc in
      if trunc_title = None \<and> \<not> SUPPRESS_ERRORS then Exit1 (Some TITLE_TRUNC_FAILED)
      else
        (case str_trunc artist max_artist_length trunc of
           None \<Rightarrow> Exit1 (if SUPPRESS_ERRORS then None else Some ARTIST_TRUNC_FAILED)
         | Some trunc_artist \<Rightarrow>
             (let temp = str_replace_all format TOKEN_ARTIST trunc_artist in
              case trunc_title of
                None \<Rightarrow> NullDeref
              | Some tt \<Rightarrow>
                  (let temp2 = str_replace_all temp TOKEN_TITLE tt in
                   case str_trunc temp2 max_length trunc of
                     None \<Rightarrow> Exit1 (if SUPPRESS_ERRORS then None else Some OUTPUT_TRUNC_FAILED)
                   | Some output \<Rightarrow> Output output))))"

text \<open>
  \<^verbatim>\<open>format_output\<close>. The artist and the title are C strings that may be null
  (\<open>None\<close>); \<^verbatim>\<open>strlen\<close> is applied to both before anything else. The global
  \<^verbatim>\<open>SUPPRESS_ERRORS\<close> is the first argument.
\<close>

definition format_output ::
  "bool \<Rightarrow> string option \<Rightarrow> string option \<Rightarrow> int \<Rightarrow> int \<Rightarrow> int \<Rightarrow> string \<Rightarrow> string \<Rightarrow> outcome" where
  "format_output SUPPRESS_ERRORS artist title max_artist_length max_title_length
       max_length format trunc =
     (case artist of
        None \<Rightarrow> NullDeref
      | Some a \<Rightarrow>
     (case title of
        None \<Rightarrow> NullDeref
      | Some t \<Rightarrow>
     (case select_branch a t max_length format of
        PlaceholderBranch \<Rightarrow> Output DEFAULT_PLACEHOLDER
      | TruncationBranch \<Rightarrow>
          truncation_branch SUPPRESS_ERRORS a t max_artist_length max_title_length
            max_length format trunc
      | SubstitutionBranch \<Rightarrow>
          Output (str_replace_all (str_replace_all format TOKEN_ARTIST a) TOKEN_TITLE t))))"

text \<open>
  \<^verbatim>\<open>get_status\<close>, from the answer of the transport on: an error ends the run with
  status 1, its message is printed unless errors are suppressed; a reply goes
  through both extractions and then straight to \<^verbatim>\<open>format_output\<close>. The outcome
  \<open>Output s\<close> stands for \<open>s\<close> printed by \<^verbatim>\<open>puts\<close>.
\<close>

datatype transport = TransportError string | Reply "dbus_value list"

definition get_status ::
  "bool \<Rightarrow> transport \<Rightarrow> int \<Rightarrow> int \<Rightarrow> int \<Rightarrow> string \<Rightarrow> string \<Rightarrow> outcome" where
  "get_status SUPPRESS_ERRORS answer max_artist_length max_title_length max_length
       format trunc =
     (case answer of
        TransportError message \<Rightarrow> Exit1 (if SUPPRESS_ERRORS then None else Some message)
      | Reply reply \<Rightarrow>
          (let title = get_song_title_from_metadata reply;
               artist = get_song_artist_from_metadata reply
           in format_output SUPPRESS_ERRORS artist title max_artist_length
                max_title_length max_length format trunc))"

subsection \<open>Notions of the specification\<close>

text \<open>
  The estimate of the specification, over the integers: the length of the template
  plus, for each token, its occurrence count times the difference between the
  length of the value and the length of the token.
\<close>

definition estimated_total_length :: "string \<Rightarrow> string \<Rightarrow> string \<Rightarrow> int" where
  "estimated_total_length artist title template =
     int (length template)
     + int (num_of_matches template TOKEN_ARTIST) * (int (length artist) - int (length TOKEN_ARTIST))
     + int (num_of_matches template TOKEN_TITLE) * (int (length title) - int (length TOKEN_TITLE))"

text \<open>A value that a C \<^verbatim>\<open>int\<close> holds without wrapping.\<close>

definition fits_int :: "int \<Rightarrow> bool" where
  "fits_int x = (- INT_MAX - 1 \<le> x \<and> x \<le> INT_MAX)"

text \<open>
  The lengths, the two products and the sum computed by \<^verbatim>\<open>format_output\<close> all stay in
  the range of \<^verbatim>\<open>int\<close>: the inputs on which the C arithmetic is the arithmetic of the
  integers.
\<close>

definition within_int_range :: "string \<Rightarrow> string \<Rightarrow> string \<Rightarrow> bool" where
  "within_int_range artist title template =
     (fits_int (int (length artist)) \<and> fits_int (int (length title))
      \<and> fits_int (int (length template))
      \<and> fits_int (int (num_of_matches template TOKEN_ARTIST)
                  * (int (length artist) - int (length TOKEN_ARTIST)))
      \<and> fits_int (int (num_of_matches template TOKEN_TITLE)
                  * (int (length title) - int (length TOKEN_TITLE)))
      \<and> fits_int (estimated_total_length artist title template))"

text \<open>The string an outcome returns, if it returns one.\<close>

fun returned :: "outcome \<Rightarrow> string option" where
  "returned (Output s) = Some s"
| "returned (Exit1 m) = None"
| "returned NullDeref = None"

text \<open>
  A template that reads, from left to right, as text without \<open>%\<close>, artist tokens
  and title tokens, where no title token is directly followed by the text
  \<open>artist%\<close> (there the closing \<open>%\<close> of the title token would open an artist
  token for the scan of the first pass).
\<close>

function plain_template :: "string \<Rightarrow> bool" where
  "plain_template [] = True"
| "plain_template (c # cs) =
     (if prefix TOKEN_ARTIST (c # cs)
      then plain_template (drop (length TOKEN_ARTIST) (c # cs))
      else if prefix TOKEN_TITLE (c # cs)
      then \<not> prefix ''artist%'' (drop (length TOKEN_TITLE) (c # cs))
           \<and> plain_template (drop (length TOKEN_TITLE) (c # cs))
      else c \<noteq> CHR ''%'' \<and> plain_template cs)"
  by pat_completeness auto
termination
  by (relation "measure length") (auto simp: TOKEN_ARTIST_def TOKEN_TITLE_def)

text \<open>The same without artist tokens: what the first pass leaves for the second.\<close>

function title_template :: "string \<Rightarrow> bool" where
  "title_template [] = True"
| "title_template (c # cs) =
     (if prefix TOKEN_TITLE (c # cs)
      then title_template (drop (length TOKEN_TITLE) (c # cs))
      else c \<noteq> CHR ''%'' \<and> title_template cs)"
  by pat_completeness auto
termination
  by (relation "measure length") (auto simp: TOKEN_TITLE_def)

subsection \<open>C integers in range\<close>

lemma c_int_id: "fits_int x \<Longrightarrow> c_int x = x"
  by (simp add: fits_int_def c_int_def INT_MAX_def)

lemma num_of_matches_le_length: "num_of_matches s tok \<le> length s"
proof (induction s tok rule: num_of_matches.induct)
  case (1 tok)
  then show ?case by simp
next
  case (2 c cs tok)
  show ?case
  proof (cases "tok \<noteq> [] \<and> prefix tok (c # cs)")
    case True
    then have "0 < length tok" by simp
    with True 2(1) show ?thesis by (cases tok) (auto simp: Suc_diff_le)
  next
    case False
    with 2(2) show ?thesis by auto
  qed
qed

lemma fits_int_num_of_matches:
  "fits_int (int (length s)) \<Longrightarrow> fits_int (int (num_of_matches s tok))"
  using num_of_matches_le_length [of s tok] by (simp add: fits_int_def INT_MAX_def)

lemma total_untrunc_length:
  assumes "within_int_range artist title template"
  shows "c_int (strlen template
           + c_int (c_int (int (num_of_matches template TOKEN_ARTIST))
                    * c_int (strlen artist - strlen TOKEN_ARTIST))
           + c_int (c_int (int (num_of_matches template TOKEN_TITLE))
                    * c_int (strlen title - strlen TOKEN_TITLE)))
         = estimated_total_length artist title template"
proof -
  from assms have fa: "fits_int (int (length artist))" and ft: "fits_int (int (length title))"
    and ff: "fits_int (int (length template))"
    and pa: "fits_int (int (num_of_matches template TOKEN_ARTIST)
                  * (int (length artist) - int (length TOKEN_ARTIST)))"
    and pt: "fits_int (int (num_of_matches template TOKEN_TITLE)
                  * (int (length title) - int (length TOKEN_TITLE)))"
    and est: "fits_int (estimated_total_length artist title template)"
    by (simp_all add: within_int_range_def)
  have na: "c_int (int (num_of_matches template TOKEN_ARTIST)) = int (num_of_matches template TOKEN_ARTIST)"
    by (rule c_int_id [OF fits_int_num_of_matches [OF ff]])
  have nt: "c_int (int (num_of_matches template TOKEN_TITLE)) = int (num_of_matches template TOKEN_TITLE)"
    by (rule c_int_id [OF fits_int_num_of_matches [OF ff]])
  have da: "c_int (strlen artist - strlen TOKEN_ARTIST) = int (length artist) - int (length TOKEN_ARTIST)"
    using fa by (simp add: c_int_id fits_int_def strlen_def INT_MAX_def TOKEN_ARTIST_def)
  have dt: "c_int (strlen title - strlen TOKEN_TITLE) = int (length title) - int (length TOKEN_TITLE)"
    using ft by (simp add: c_int_id fits_int_def strlen_def INT_MAX_def TOKEN_TITLE_def)
  show ?thesis
    unfolding na nt da dt c_int_id [OF pa] c_int_id [OF pt]
    using c_int_id [OF est] by (simp add: estimated_total_length_def strlen_def)
qed

lemma select_branch_in_range:
  assumes "within_int_range artist title template" and "\<not> (artist = [] \<and> title = [])"
  shows "select_branch artist title max_length template =
           (if max_length = INT_MAX \<or> estimated_total_length artist title template > max_length
            then TruncationBranch else SubstitutionBranch)"
proof -
  from assms(1) have fa: "fits_int (int (length artist))" and ft: "fits_int (int (length title))"
    by (simp_all add: within_int_range_def)
  have la: "c_int (strlen artist) = int (length artist)"
    unfolding strlen_def by (rule c_int_id [OF fa])
  have lt: "c_int (strlen title) = int (length title)"
    unfolding strlen_def by (rule c_int_id [OF ft])
  from assms(2) have ne: "\<not> (c_int (strlen artist) = 0 \<and> c_int (strlen title) = 0)"
    unfolding la lt by simp
  show ?thesis
    unfolding select_branch_def Let_def total_untrunc_length [OF assms(1)]
    using ne by auto
qed

subsection \<open>The truncation algorithm\<close>

text \<open>
  Claim C8. For every string, marker and length budget, \<open>str_trunc\<close> fails exactly
  when the budget is bounded, the marker is longer than the budget, and the
  string is longer than the budget.
\<close>

theorem str_trunc_fails_iff:
  "(str_trunc s max_len marker = None) =
     (max_len \<noteq> INT_MAX \<and> max_len < strlen marker \<and> strlen s > max_len)"
  by (auto simp: str_trunc_def)

text \<open>
  Claim C2. For a bounded budget that is at least the length of the marker,
  \<open>str_trunc\<close> succeeds, its result has length exactly the minimum of the length of
  the string and the budget, and when the string is longer than the budget the
  result is the first \<open>max_len - len(marker)\<close> characters of the string followed
  by the whole marker, so it ends with the marker.
\<close>

theorem str_trunc_length_and_marker:
  assumes "max_len \<noteq> INT_MAX" and "strlen marker \<le> max_len"
  shows "\<exists>r. str_trunc s max_len marker = Some r
           \<and> int (length r) = min (strlen s) max_len
           \<and> (strlen s > max_len \<longrightarrow>
                r = take (nat (max_len - strlen marker)) s @ marker \<and> suffix marker r)"
  using assms by (auto simp: str_trunc_def strlen_def min_def suffix_def)

theorem str_trunc_length_and_marker_witness:
  "(10::int) \<noteq> INT_MAX \<and> strlen ''...'' \<le> 10
   \<and> str_trunc ''Sing For The Moment'' 10 ''...'' = Some ''Sing Fo...''
   \<and> int (length ''Sing Fo...'') = min (strlen ''Sing For The Moment'') 10
   \<and> suffix ''...'' ''Sing Fo...''"
proof -
  have b: "(10::int) \<noteq> INT_MAX" by (simp add: INT_MAX_def)
  have m: "strlen ''...'' \<le> 10" by (simp add: strlen_def)
  have l: "strlen ''Sing For The Moment'' > 10" by (simp add: strlen_def)
  from str_trunc_length_and_marker [OF b m, of "''Sing For The Moment''"] l
  obtain r where "str_trunc ''Sing For The Moment'' 10 ''...'' = Some r"
    and "int (length r) = min (strlen ''Sing For The Moment'') 10"
    and "r = take (nat (10 - strlen ''...'')) ''Sing For The Moment'' @ ''...''"
    and "suffix ''...'' r"
    by blast
  then show ?thesis using b m by (simp add: strlen_def)
qed

subsection \<open>The truncation decision\<close>

text \<open>
  Within the range of \<open>int\<close> the decision is the one of the specification: for
  an artist and a title that are not both empty, and lengths for which the C
  arithmetic does not wrap, \<open>format_output\<close> takes the truncation branch exactly
  when \<open>max_length\<close> is unbounded (\<open>INT_MAX\<close>) or the estimated total length, the
  length of the template plus occurrence count times length difference for each
  token, exceeds \<open>max_length\<close>; otherwise it returns the plain substitution.
\<close>

theorem format_truncation_decision:
  assumes "within_int_range artist title template" and "\<not> (artist = [] \<and> title = [])"
  shows "(select_branch artist title max_length template = TruncationBranch)
           = (max_length = INT_MAX \<or> estimated_total_length artist title template > max_length)
         \<and> format_output se (Some artist) (Some title) mal mtl max_length template marker
           = (if max_length = INT_MAX \<or> estimated_total_length artist title template > max_length
              then truncation_branch se artist title mal mtl max_length template marker
              else Output (str_replace_all (str_replace_all template TOKEN_ARTIST artist)
                             TOKEN_TITLE title))"
  by (simp add: format_output_def select_branch_in_range [OF assms])

theorem format_truncation_decision_witness:
  "within_int_range ''Eminem'' ''Sing For The Moment'' ''%artist%: %title%''
   \<and> estimated_total_length ''Eminem'' ''Sing For The Moment'' ''%artist%: %title%'' = 27
   \<and> select_branch ''Eminem'' ''Sing For The Moment'' 20 ''%artist%: %title%'' = TruncationBranch
   \<and> select_branch ''Eminem'' ''Sing For The Moment'' 30 ''%artist%: %title%'' \<noteq> TruncationBranch
   \<and> select_branch ''Eminem'' ''Sing For The Moment'' INT_MAX ''%artist%: %title%'' = TruncationBranch"
proof -
  have r: "within_int_range ''Eminem'' ''Sing For The Moment'' ''%artist%: %title%''"
    by (simp add: within_int_range_def estimated_total_length_def fits_int_def INT_MAX_def
        TOKEN_ARTIST_def TOKEN_TITLE_def)
  have e: "estimated_total_length ''Eminem'' ''Sing For The Moment'' ''%artist%: %title%'' = 27"
    by (simp add: estimated_total_length_def TOKEN_ARTIST_def TOKEN_TITLE_def)
  have n: "\<not> (''Eminem'' = [] \<and> ''Sing For The Moment'' = [])" by simp
  note d = format_truncation_decision [OF r n, THEN conjunct1]
  have "select_branch ''Eminem'' ''Sing For The Moment'' 20 ''%artist%: %title%'' = TruncationBranch"
    using d [of 20] e by simp
  moreover have "select_branch ''Eminem'' ''Sing For The Moment'' 30 ''%artist%: %title%'' \<noteq> TruncationBranch"
    using d [of 30] e by (simp add: INT_MAX_def)
  moreover have "select_branch ''Eminem'' ''Sing For The Moment'' INT_MAX ''%artist%: %title%'' = TruncationBranch"
    using d [of INT_MAX] by simp
  ultimately show ?thesis using r e by simp
qed
subsection \<open>The decision when the estimate leaves the range of int\<close>

lemma num_of_matches_at_token:
  assumes "tok \<noteq> []"
  shows "num_of_matches (tok @ rest) tok = Suc (num_of_matches rest tok)"
proof (cases tok)
  case Nil
  with assms show ?thesis by simp
next
  case (Cons x xs)
  then show ?thesis by simp
qed

lemma artist_tokens_count:
  "num_of_matches (concat (replicate n TOKEN_ARTIST)) TOKEN_ARTIST = n"
proof (induction n)
  case 0
  show ?case by simp
next
  case (Suc n)
  have "TOKEN_ARTIST \<noteq> []" by (simp add: TOKEN_ARTIST_def)
  from num_of_matches_at_token [OF this, of "concat (replicate n TOKEN_ARTIST)"] Suc
  show ?case by simp
qed

lemma artist_tokens_no_title_start:
  "\<not> prefix ''title%'' (concat (replicate n TOKEN_ARTIST))"
  by (cases n) (simp_all add: TOKEN_ARTIST_def)

lemma num_of_matches_title_over_artist:
  assumes "\<not> prefix ''title%'' rest"
  shows "num_of_matches (TOKEN_ARTIST @ rest) TOKEN_TITLE = num_of_matches rest TOKEN_TITLE"
  using assms by (simp add: TOKEN_ARTIST_def TOKEN_TITLE_def)

lemma artist_tokens_no_title:
  "num_of_matches (concat (replicate n TOKEN_ARTIST)) TOKEN_TITLE = 0"
proof (induction n)
  case 0
  show ?case by simp
next
  case (Suc n)
  from num_of_matches_title_over_artist [OF artist_tokens_no_title_start [of n]] Suc
  show ?case by simp
qed

lemma artist_tokens_length:
  "length (concat (replicate n TOKEN_ARTIST)) = 8 * n"
  by (induction n) (simp_all add: TOKEN_ARTIST_def)

text \<open>
  Claim C1, evaluated on the code. The claim says that \<open>format_output\<close> takes the
  truncation branch exactly when \<open>max_length\<close> is unbounded or the estimated total
  length exceeds it. The source keeps the estimate in an \<^verbatim>\<open>int\<close>. For a template
  of 16383 artist tokens (131064 bytes), an artist of 131089 bytes and
  \<open>max_length = 100\<close> the estimate is 2147631087, above \<open>max_length\<close> and above
  \<^verbatim>\<open>INT_MAX\<close>; the stored value is negative, the test fails and the plain
  substitution is returned, untruncated. The same happens with 16382 tokens and
  an artist of 131096 bytes, where the product of the count and the length
  difference still fits an \<^verbatim>\<open>int\<close> and only the sum does not.
\<close>

theorem truncation_decision_overflow:
  "estimated_total_length (replicate 131089 (CHR ''a'')) ''Sing For The Moment''
       (concat (replicate 16383 TOKEN_ARTIST)) = 2147631087
   \<and> (100::int) \<noteq> INT_MAX
   \<and> (100::int) < estimated_total_length (replicate 131089 (CHR ''a'')) ''Sing For The Moment''
       (concat (replicate 16383 TOKEN_ARTIST))
   \<and> select_branch (replicate 131089 (CHR ''a'')) ''Sing For The Moment'' 100
       (concat (replicate 16383 TOKEN_ARTIST)) = SubstitutionBranch
   \<and> format_output se (Some (replicate 131089 (CHR ''a''))) (Some ''Sing For The Moment'')
       max_artist_length max_title_length 100 (concat (replicate 16383 TOKEN_ARTIST)) marker
     = Output (str_replace_all
         (str_replace_all (concat (replicate 16383 TOKEN_ARTIST)) TOKEN_ARTIST
            (replicate 131089 (CHR ''a'')))
         TOKEN_TITLE ''Sing For The Moment'')
   \<and> fits_int (int (num_of_matches (concat (replicate 16382 TOKEN_ARTIST)) TOKEN_ARTIST)
         * (int (length (replicate 131096 (CHR ''a''))) - int (length TOKEN_ARTIST)))
   \<and> estimated_total_length (replicate 131096 (CHR ''a'')) ''Sing For The Moment''
       (concat (replicate 16382 TOKEN_ARTIST)) = 2147614672
   \<and> select_branch (replicate 131096 (CHR ''a'')) ''Sing For The Moment'' 100
       (concat (replicate 16382 TOKEN_ARTIST)) = SubstitutionBranch"
proof -
  have e: "estimated_total_length (replicate 131089 (CHR ''a'')) ''Sing For The Moment''
       (concat (replicate 16383 TOKEN_ARTIST)) = 2147631087"
    unfolding estimated_total_length_def artist_tokens_count artist_tokens_no_title
      artist_tokens_length
    by (simp add: TOKEN_ARTIST_def)
  have b: "select_branch (replicate 131089 (CHR ''a'')) ''Sing For The Moment'' 100
       (concat (replicate 16383 TOKEN_ARTIST)) = SubstitutionBranch"
    unfolding select_branch_def Let_def strlen_def artist_tokens_count artist_tokens_no_title
      artist_tokens_length
    by (simp add: c_int_def INT_MAX_def TOKEN_ARTIST_def TOKEN_TITLE_def)
  have n: "(100::int) \<noteq> INT_MAX" by (simp add: INT_MAX_def)
  from b have f: "format_output se (Some (replicate 131089 (CHR ''a'')))
       (Some ''Sing For The Moment'')
       max_artist_length max_title_length 100 (concat (replicate 16383 TOKEN_ARTIST)) marker
     = Output (str_replace_all
         (str_replace_all (concat (replicate 16383 TOKEN_ARTIST)) TOKEN_ARTIST
            (replicate 131089 (CHR ''a'')))
         TOKEN_TITLE ''Sing For The Moment'')"
    unfolding format_output_def by simp
  from e have g: "(100::int) < estimated_total_length (replicate 131089 (CHR ''a''))
       ''Sing For The Moment'' (concat (replicate 16383 TOKEN_ARTIST))"
    by simp
  have p': "fits_int (int (num_of_matches (concat (replicate 16382 TOKEN_ARTIST)) TOKEN_ARTIST)
         * (int (length (replicate 131096 (CHR ''a''))) - int (length TOKEN_ARTIST)))"
    unfolding artist_tokens_count
    by (simp add: fits_int_def INT_MAX_def TOKEN_ARTIST_def)
  have e': "estimated_total_length (replicate 131096 (CHR ''a'')) ''Sing For The Moment''
       (concat (replicate 16382 TOKEN_ARTIST)) = 2147614672"
    unfolding estimated_total_length_def artist_tokens_count artist_tokens_no_title
      artist_tokens_length
    by (simp add: TOKEN_ARTIST_def)
  have b': "select_branch (replicate 131096 (CHR ''a'')) ''Sing For The Moment'' 100
       (concat (replicate 16382 TOKEN_ARTIST)) = SubstitutionBranch"
    unfolding select_branch_def Let_def strlen_def artist_tokens_count artist_tokens_no_title
      artist_tokens_length
    by (simp add: c_int_def INT_MAX_def TOKEN_ARTIST_def TOKEN_TITLE_def)
  from e n g b f p' e' b' show ?thesis by (intro conjI)
qed

subsection \<open>The example of the usage text\<close>

lemma example_within_int_range:
  "within_int_range ''Eminem'' ''Sing For The Moment'' ''%artist%: %title%''"
  by (simp add: within_int_range_def estimated_total_length_def fits_int_def INT_MAX_def
      TOKEN_ARTIST_def TOKEN_TITLE_def)

lemma example_estimate:
  "estimated_total_length ''Eminem'' ''Sing For The Moment'' ''%artist%: %title%'' = 27"
  by (simp add: estimated_total_length_def TOKEN_ARTIST_def TOKEN_TITLE_def)

lemma example_branch_20:
  "select_branch ''Eminem'' ''Sing For The Moment'' 20 ''%artist%: %title%'' = TruncationBranch"
  using select_branch_in_range [OF example_within_int_range, of 20] example_estimate
  by simp

lemma example_branch_30:
  "select_branch ''Eminem'' ''Sing For The Moment'' 30 ''%artist%: %title%'' = SubstitutionBranch"
  using select_branch_in_range [OF example_within_int_range, of 30] example_estimate
  by (simp add: INT_MAX_def)

lemma example_branch_2:
  "select_branch ''Eminem'' ''Sing For The Moment'' 2 ''%artist%: %title%'' = TruncationBranch"
  using select_branch_in_range [OF example_within_int_range, of 2] example_estimate
  by simp

lemma example_branch_unbounded:
  "select_branch ''Eminem'' ''Sing For The Moment'' INT_MAX ''%artist%: %title%''
     = TruncationBranch"
  using select_branch_in_range [OF example_within_int_range, of INT_MAX] by simp

lemma example_truncations:
  "str_trunc ''Eminem'' 10 ''...'' = Some ''Eminem''"
  "str_trunc ''Sing For The Moment'' 10 ''...'' = Some ''Sing Fo...''"
  "str_trunc ''Eminem: Sing Fo...'' 20 ''...'' = Some ''Eminem: Sing Fo...''"
  by (simp_all add: str_trunc_def strlen_def INT_MAX_def)

subsection \<open>The two branches\<close>

text \<open>
  Claim C6. For an artist and a title that are not both empty (and lengths in the
  range of \<open>int\<close>), when \<open>max_length\<close> is bounded and the estimated total length
  does not exceed it, \<open>format_output\<close> returns the template with both tokens
  replaced by the full artist and title, whatever \<open>max_artist_length\<close> and
  \<open>max_title_length\<close> are. For Eminem, Sing For The Moment, the default template
  and the limits 10, 20 and 30 the output is \<open>Eminem: Sing For The Moment\<close>.
\<close>

theorem format_without_truncation:
  "(within_int_range artist title template \<and> \<not> (artist = [] \<and> title = [])
      \<and> max_length \<noteq> INT_MAX
      \<and> estimated_total_length artist title template \<le> max_length \<longrightarrow>
      format_output se (Some artist) (Some title) max_artist_length max_title_length
        max_length template marker
      = Output (str_replace_all (str_replace_all template TOKEN_ARTIST artist)
                  TOKEN_TITLE title))
   \<and> format_output se (Some ''Eminem'') (Some ''Sing For The Moment'') 10 20 30
        ''%artist%: %title%'' ''...''
      = Output ''Eminem: Sing For The Moment''"
proof
  show "within_int_range artist title template \<and> \<not> (artist = [] \<and> title = [])
      \<and> max_length \<noteq> INT_MAX
      \<and> estimated_total_length artist title template \<le> max_length \<longrightarrow>
      format_output se (Some artist) (Some title) max_artist_length max_title_length
        max_length template marker
      = Output (str_replace_all (str_replace_all template TOKEN_ARTIST artist)
                  TOKEN_TITLE title)"
  proof
    assume "within_int_range artist title template \<and> \<not> (artist = [] \<and> title = [])
      \<and> max_length \<noteq> INT_MAX
      \<and> estimated_total_length artist title template \<le> max_length"
    then have "select_branch artist title max_length template = SubstitutionBranch"
      using select_branch_in_range [of artist title template max_length] by simp
    then show "format_output se (Some artist) (Some title) max_artist_length max_title_length
        max_length template marker
      = Output (str_replace_all (str_replace_all template TOKEN_ARTIST artist)
                  TOKEN_TITLE title)"
      by (simp add: format_output_def)
  qed
  show "format_output se (Some ''Eminem'') (Some ''Sing For The Moment'') 10 20 30
        ''%artist%: %title%'' ''...''
      = Output ''Eminem: Sing For The Moment''"
    by (simp add: format_output_def example_branch_30 TOKEN_ARTIST_def TOKEN_TITLE_def)
qed

theorem format_without_truncation_witness:
  "within_int_range ''Eminem'' ''Sing For The Moment'' ''%artist%: %title%''
   \<and> (30::int) \<noteq> INT_MAX
   \<and> estimated_total_length ''Eminem'' ''Sing For The Moment'' ''%artist%: %title%'' \<le> 30
   \<and> format_output False (Some ''Eminem'') (Some ''Sing For The Moment'') 3 5 30
        ''%artist%: %title%'' ''...''
      = Output ''Eminem: Sing For The Moment''"
proof -
  have b: "(30::int) \<noteq> INT_MAX" by (simp add: INT_MAX_def)
  have e: "estimated_total_length ''Eminem'' ''Sing For The Moment'' ''%artist%: %title%'' \<le> 30"
    by (simp add: example_estimate)
  from format_without_truncation [of "''Eminem''" "''Sing For The Moment''"
      "''%artist%: %title%''" 30 False 3 5 "''...''", THEN conjunct1]
    example_within_int_range b e
  have "format_output False (Some ''Eminem'') (Some ''Sing For The Moment'') 3 5 30
          ''%artist%: %title%'' ''...''
        = Output (str_replace_all (str_replace_all ''%artist%: %title%'' TOKEN_ARTIST ''Eminem'')
                    TOKEN_TITLE ''Sing For The Moment'')"
    by simp
  with example_within_int_range b e show ?thesis
    by (simp add: TOKEN_ARTIST_def TOKEN_TITLE_def)
qed

text \<open>
  Claim C4. On every input that takes the truncation branch, the string that
  \<open>format_output\<close> returns, if any, is obtained by truncating the artist to
  \<open>max_artist_length\<close> and the title to \<open>max_title_length\<close>, each on its own,
  substituting both results into the template, and truncating the substituted
  string to \<open>max_length\<close> with the same \<open>str_trunc\<close>; nothing is returned when one
  of the three truncations fails. For Eminem, Sing For The Moment, the default
  template and the limits 10, 10 and 20 the branch is taken, the title becomes
  \<open>Sing Fo...\<close> and the artist stays \<open>Eminem\<close>.
\<close>

theorem truncation_branch_order:
  "(select_branch artist title max_length template = TruncationBranch \<longrightarrow>
      returned (format_output se (Some artist) (Some title) max_artist_length
                  max_title_length max_length template marker)
      = Option.bind (str_trunc artist max_artist_length marker) (\<lambda>trunc_artist.
        Option.bind (str_trunc title max_title_length marker) (\<lambda>trunc_title.
          str_trunc (str_replace_all (str_replace_all template TOKEN_ARTIST trunc_artist)
                       TOKEN_TITLE trunc_title) max_length marker)))
   \<and> select_branch ''Eminem'' ''Sing For The Moment'' 20 ''%artist%: %title%'' = TruncationBranch
   \<and> str_trunc ''Sing For The Moment'' 10 ''...'' = Some ''Sing Fo...''
   \<and> str_trunc ''Eminem'' 10 ''...'' = Some ''Eminem''
   \<and> format_output se (Some ''Eminem'') (Some ''Sing For The Moment'') 10 10 20
        ''%artist%: %title%'' ''...'' = Output ''Eminem: Sing Fo...''"
proof (intro conjI impI)
  assume "select_branch artist title max_length template = TruncationBranch"
  then show "returned (format_output se (Some artist) (Some title) max_artist_length
                  max_title_length max_length template marker)
      = Option.bind (str_trunc artist max_artist_length marker) (\<lambda>trunc_artist.
        Option.bind (str_trunc title max_title_length marker) (\<lambda>trunc_title.
          str_trunc (str_replace_all (str_replace_all template TOKEN_ARTIST trunc_artist)
                       TOKEN_TITLE trunc_title) max_length marker))"
    by (simp add: format_output_def truncation_branch_def Let_def split: option.splits)
next
  show "select_branch ''Eminem'' ''Sing For The Moment'' 20 ''%artist%: %title%''
          = TruncationBranch"
    by (rule example_branch_20)
next
  show "str_trunc ''Sing For The Moment'' 10 ''...'' = Some ''Sing Fo...''"
    by (rule example_truncations)
next
  show "str_trunc ''Eminem'' 10 ''...'' = Some ''Eminem''"
    by (rule example_truncations)
next
  show "format_output se (Some ''Eminem'') (Some ''Sing For The Moment'') 10 10 20
        ''%artist%: %title%'' ''...'' = Output ''Eminem: Sing Fo...''"
    by (simp add: format_output_def truncation_branch_def example_branch_20 example_truncations
        TOKEN_ARTIST_def TOKEN_TITLE_def)
qed

theorem truncation_branch_order_witness:
  "select_branch ''Eminem'' ''Sing For The Moment'' INT_MAX ''%artist%: %title%''
     = TruncationBranch
   \<and> str_trunc ''Eminem'' INT_MAX ''...'' = Some ''Eminem''
   \<and> str_trunc ''Sing For The Moment'' 13 ''...'' = Some ''Sing For T...''
   \<and> returned (format_output False (Some ''Eminem'') (Some ''Sing For The Moment'') INT_MAX 13
                 INT_MAX ''%artist%: %title%'' ''...'')
      = Some ''Eminem: Sing For T...''"
proof -
  note b = example_branch_unbounded
  have a: "str_trunc ''Eminem'' INT_MAX ''...'' = Some ''Eminem''"
    by (simp add: str_trunc_def)
  have t: "str_trunc ''Sing For The Moment'' 13 ''...'' = Some ''Sing For T...''"
    by (simp add: str_trunc_def strlen_def INT_MAX_def)
  have o: "str_trunc ''Eminem: Sing For T...'' INT_MAX ''...'' = Some ''Eminem: Sing For T...''"
    by (simp add: str_trunc_def)
  from truncation_branch_order [of "''Eminem''" "''Sing For The Moment''" INT_MAX
      "''%artist%: %title%''" False INT_MAX 13 "''...''", THEN conjunct1] b
  have "returned (format_output False (Some ''Eminem'') (Some ''Sing For The Moment'') INT_MAX 13
                 INT_MAX ''%artist%: %title%'' ''...'')
      = Option.bind (str_trunc ''Eminem'' INT_MAX ''...'') (\<lambda>trunc_artist.
        Option.bind (str_trunc ''Sing For The Moment'' 13 ''...'') (\<lambda>trunc_title.
          str_trunc (str_replace_all (str_replace_all ''%artist%: %title%'' TOKEN_ARTIST trunc_artist)
                       TOKEN_TITLE trunc_title) INT_MAX ''...''))"
    by simp
  then show ?thesis using b a t o by (simp add: TOKEN_ARTIST_def TOKEN_TITLE_def)
qed

subsection \<open>Failing truncations\<close>

lemma messages_name_budget:
  "sublist ''max title length'' TITLE_TRUNC_FAILED
   \<and> sublist ''max artist length'' ARTIST_TRUNC_FAILED
   \<and> sublist ''max output length'' OUTPUT_TRUNC_FAILED"
proof (intro conjI)
  show "sublist ''max title length'' TITLE_TRUNC_FAILED"
    unfolding TITLE_TRUNC_FAILED_def sublist_def
    by (rule exI [of _ "''Failed to truncate title. Please make sure the trunc string is smaller than the ''"],
        rule exI [of _ "''.'' @ [CHR 0x0A]"]) simp
  show "sublist ''max artist length'' ARTIST_TRUNC_FAILED"
    unfolding ARTIST_TRUNC_FAILED_def sublist_def
    by (rule exI [of _ "''Failed to truncate artist. Please make sure the trunc string is smaller than the ''"],
        rule exI [of _ "''.'' @ [CHR 0x0A]"]) simp
  show "sublist ''max output length'' OUTPUT_TRUNC_FAILED"
    unfolding OUTPUT_TRUNC_FAILED_def sublist_def
    by (rule exI [of _ "''Failed to truncate output. Please make sure the trunc string is smaller than the ''"],
        rule exI [of _ "''.'' @ [CHR 0x0A]"]) simp
qed

text \<open>
  Claim C3, as the code has it. On an input that takes the truncation branch, a
  failing truncation ends the run with \<^verbatim>\<open>exit(1)\<close> and returns no string: for the
  title when errors are not suppressed, for the artist when the title was
  truncated, for the whole output when both were. The message names the length
  that was too small; it is written only when errors are not suppressed.
\<close>

theorem truncation_failure_exits:
  "(select_branch artist title max_length template = TruncationBranch \<longrightarrow>
      (str_trunc title max_title_length marker = None \<and> \<not> se \<longrightarrow>
         format_output se (Some artist) (Some title) max_artist_length max_title_length
           max_length template marker = Exit1 (Some TITLE_TRUNC_FAILED))
    \<and> (str_trunc title max_title_length marker \<noteq> None
         \<and> str_trunc artist max_artist_length marker = None \<longrightarrow>
         format_output se (Some artist) (Some title) max_artist_length max_title_length
           max_length template marker
         = Exit1 (if se then None else Some ARTIST_TRUNC_FAILED))
    \<and> (\<forall>trunc_artist trunc_title.
         str_trunc title max_title_length marker = Some trunc_title
         \<and> str_trunc artist max_artist_length marker = Some trunc_artist
         \<and> str_trunc (str_replace_all (str_replace_all template TOKEN_ARTIST trunc_artist)
                        TOKEN_TITLE trunc_title) max_length marker = None \<longrightarrow>
         format_output se (Some artist) (Some title) max_artist_length max_title_length
           max_length template marker
         = Exit1 (if se then None else Some OUTPUT_TRUNC_FAILED)))
   \<and> sublist ''max title length'' TITLE_TRUNC_FAILED
   \<and> sublist ''max artist length'' ARTIST_TRUNC_FAILED
   \<and> sublist ''max output length'' OUTPUT_TRUNC_FAILED"
proof (rule conjI)
  show "select_branch artist title max_length template = TruncationBranch \<longrightarrow>
      (str_trunc title max_title_length marker = None \<and> \<not> se \<longrightarrow>
         format_output se (Some artist) (Some title) max_artist_length max_title_length
           max_length template marker = Exit1 (Some TITLE_TRUNC_FAILED))
    \<and> (str_trunc title max_title_length marker \<noteq> None
         \<and> str_trunc artist max_artist_length marker = None \<longrightarrow>
         format_output se (Some artist) (Some title) max_artist_length max_title_length
           max_length template marker
         = Exit1 (if se then None else Some ARTIST_TRUNC_FAILED))
    \<and> (\<forall>trunc_artist trunc_title.
         str_trunc title max_title_length marker = Some trunc_title
         \<and> str_trunc artist max_artist_length marker = Some trunc_artist
         \<and> str_trunc (str_replace_all (str_replace_all template TOKEN_ARTIST trunc_artist)
                        TOKEN_TITLE trunc_title) max_length marker = None \<longrightarrow>
         format_output se (Some artist) (Some title) max_artist_length max_title_length
           max_length template marker
         = Exit1 (if se then None else Some OUTPUT_TRUNC_FAILED))"
    by (auto simp: format_output_def truncation_branch_def Let_def split: option.splits)
  show "sublist ''max title length'' TITLE_TRUNC_FAILED
      \<and> sublist ''max artist length'' ARTIST_TRUNC_FAILED
      \<and> sublist ''max output length'' OUTPUT_TRUNC_FAILED"
    by (rule messages_name_budget)
qed

theorem truncation_failure_exits_witness:
  "select_branch ''Eminem'' ''Sing For The Moment'' 2 ''%artist%: %title%'' = TruncationBranch
   \<and> str_trunc ''Sing For The Moment'' 2 ''...'' = None
   \<and> format_output False (Some ''Eminem'') (Some ''Sing For The Moment'') 2 2 2
        ''%artist%: %title%'' ''...'' = Exit1 (Some TITLE_TRUNC_FAILED)
   \<and> str_trunc ''Sing For The Moment'' 20 ''...'' = Some ''Sing For The Moment''
   \<and> str_trunc ''Eminem'' 2 ''...'' = None
   \<and> format_output False (Some ''Eminem'') (Some ''Sing For The Moment'') 2 20 2
        ''%artist%: %title%'' ''...'' = Exit1 (Some ARTIST_TRUNC_FAILED)
   \<and> format_output True (Some ''Eminem'') (Some ''Sing For The Moment'') 2 20 2
        ''%artist%: %title%'' ''...'' = Exit1 None
   \<and> str_trunc ''Eminem'' 20 ''...'' = Some ''Eminem''
   \<and> str_trunc ''Eminem: Sing For The Moment'' 2 ''...'' = None
   \<and> format_output False (Some ''Eminem'') (Some ''Sing For The Moment'') 20 20 2
        ''%artist%: %title%'' ''...'' = Exit1 (Some OUTPUT_TRUNC_FAILED)
   \<and> format_output True (Some ''Eminem'') (Some ''Sing For The Moment'') 20 20 2
        ''%artist%: %title%'' ''...'' = Exit1 None"
proof -
  note b = example_branch_2
  have t2: "str_trunc ''Sing For The Moment'' 2 ''...'' = None"
    and t20: "str_trunc ''Sing For The Moment'' 20 ''...'' = Some ''Sing For The Moment''"
    and a2: "str_trunc ''Eminem'' 2 ''...'' = None"
    and a20: "str_trunc ''Eminem'' 20 ''...'' = Some ''Eminem''"
    and o2: "str_trunc ''Eminem: Sing For The Moment'' 2 ''...'' = None"
    by (simp_all add: str_trunc_def strlen_def INT_MAX_def)
  have s: "str_replace_all (str_replace_all ''%artist%: %title%'' TOKEN_ARTIST ''Eminem'')
             TOKEN_TITLE ''Sing For The Moment'' = ''Eminem: Sing For The Moment''"
    by (simp add: TOKEN_ARTIST_def TOKEN_TITLE_def)
  have th: "(str_trunc ''Sing For The Moment'' mtl ''...'' = None \<and> \<not> se \<longrightarrow>
         format_output se (Some ''Eminem'') (Some ''Sing For The Moment'') mal mtl
           2 ''%artist%: %title%'' ''...'' = Exit1 (Some TITLE_TRUNC_FAILED))
    \<and> (str_trunc ''Sing For The Moment'' mtl ''...'' \<noteq> None
         \<and> str_trunc ''Eminem'' mal ''...'' = None \<longrightarrow>
         format_output se (Some ''Eminem'') (Some ''Sing For The Moment'') mal mtl
           2 ''%artist%: %title%'' ''...''
         = Exit1 (if se then None else Some ARTIST_TRUNC_FAILED))
    \<and> (\<forall>trunc_artist trunc_title.
         str_trunc ''Sing For The Moment'' mtl ''...'' = Some trunc_title
         \<and> str_trunc ''Eminem'' mal ''...'' = Some trunc_artist
         \<and> str_trunc (str_replace_all (str_replace_all ''%artist%: %title%'' TOKEN_ARTIST
                          trunc_artist) TOKEN_TITLE trunc_title) 2 ''...'' = None \<longrightarrow>
         format_output se (Some ''Eminem'') (Some ''Sing For The Moment'') mal mtl
           2 ''%artist%: %title%'' ''...''
         = Exit1 (if se then None else Some OUTPUT_TRUNC_FAILED))" for se mal mtl
    using truncation_failure_exits [of "''Eminem''" "''Sing For The Moment''" 2
        "''%artist%: %title%''" mtl "''...''" se mal, THEN conjunct1] b
    by blast
  have 1: "format_output False (Some ''Eminem'') (Some ''Sing For The Moment'') 2 2 2
        ''%artist%: %title%'' ''...'' = Exit1 (Some TITLE_TRUNC_FAILED)"
    using th [of 2 False 2] t2 by blast
  have 2: "format_output False (Some ''Eminem'') (Some ''Sing For The Moment'') 2 20 2
        ''%artist%: %title%'' ''...'' = Exit1 (Some ARTIST_TRUNC_FAILED)"
    using th [of 20 False 2] t20 a2 by simp
  have 3: "format_output True (Some ''Eminem'') (Some ''Sing For The Moment'') 2 20 2
        ''%artist%: %title%'' ''...'' = Exit1 None"
    using th [of 20 True 2] t20 a2 by simp
  from o2 s have o2': "str_trunc (str_replace_all (str_replace_all ''%artist%: %title%''
      TOKEN_ARTIST ''Eminem'') TOKEN_TITLE ''Sing For The Moment'') 2 ''...'' = None"
    by simp
  have 4: "format_output False (Some ''Eminem'') (Some ''Sing For The Moment'') 20 20 2
        ''%artist%: %title%'' ''...'' = Exit1 (Some OUTPUT_TRUNC_FAILED)"
    using th [of 20 False 20] t20 a20 o2' by auto
  have 5: "format_output True (Some ''Eminem'') (Some ''Sing For The Moment'') 20 20 2
        ''%artist%: %title%'' ''...'' = Exit1 None"
    using th [of 20 True 20] t20 a20 o2' by auto
  show ?thesis using b t2 t20 a2 a20 o2 1 2 3 4 5 by simp
qed

text \<open>
  With errors suppressed, a failing truncation of the artist ends the run without
  any message: the report is not independent of the suppression flag.
\<close>

theorem suppressed_failure_counterexample:
  "select_branch ''Eminem'' ''Sing For The Moment'' INT_MAX ''%artist%: %title%''
     = TruncationBranch
   \<and> str_trunc ''Eminem'' 2 ''...'' = None
   \<and> format_output True (Some ''Eminem'') (Some ''Sing For The Moment'') 2 INT_MAX INT_MAX
        ''%artist%: %title%'' ''...'' = Exit1 None"
proof -
  have a: "str_trunc ''Eminem'' 2 ''...'' = None"
    by (simp add: str_trunc_def strlen_def INT_MAX_def)
  have t: "str_trunc ''Sing For The Moment'' INT_MAX ''...'' = Some ''Sing For The Moment''"
    by (simp add: str_trunc_def)
  show ?thesis
    by (simp add: format_output_def truncation_branch_def example_branch_unbounded a t)
qed

subsection \<open>The placeholder and absent strings\<close>

lemma select_branch_placeholder_iff:
  assumes "fits_int (int (length artist))" and "fits_int (int (length title))"
  shows "(select_branch artist title max_length template = PlaceholderBranch)
           = (artist = [] \<and> title = [])"
proof -
  have la: "c_int (strlen artist) = int (length artist)"
    unfolding strlen_def by (rule c_int_id [OF assms(1)])
  have lt: "c_int (strlen title) = int (length title)"
    unfolding strlen_def by (rule c_int_id [OF assms(2)])
  show ?thesis
    unfolding select_branch_def Let_def la lt by auto
qed

lemma empty_reply_has_no_title:
  "get_song_title_from_metadata [DVariant (DArray [])] = None"
  by (simp add: get_song_title_from_metadata_def)

text \<open>
  Claim C5, evaluated on the code. With the artist and the title both present and
  empty, \<open>format_output\<close> returns the placeholder \<open>Spotify\<close> for every
  configuration. With the artist or the title absent (a null pointer),
  \<^verbatim>\<open>strlen\<close> is applied to the null pointer before any test and nothing is
  returned; \<open>get_status\<close> passes such a pointer for a reply without the fields,
  here a variant around an empty array.
\<close>

theorem format_output_placeholder_and_null:
  "format_output se (Some []) (Some []) max_artist_length max_title_length max_length
     template marker = Output ''Spotify''
   \<and> format_output se None None max_artist_length max_title_length max_length
       template marker = NullDeref
   \<and> get_status se (Reply [DVariant (DArray [])]) max_artist_length max_title_length
       max_length template marker = NullDeref"
proof (intro conjI)
  show "format_output se (Some []) (Some []) max_artist_length max_title_length max_length
     template marker = Output ''Spotify''"
    by (simp add: format_output_def select_branch_def strlen_def c_int_def
        DEFAULT_PLACEHOLDER_def)
  show "format_output se None None max_artist_length max_title_length max_length
       template marker = NullDeref"
    by (simp add: format_output_def)
  show "get_status se (Reply [DVariant (DArray [])]) max_artist_length max_title_length
       max_length template marker = NullDeref"
    by (simp add: get_status_def format_output_def empty_reply_has_no_title
        split: option.splits)
qed

text \<open>
  Claim C10. \<open>format_output\<close> needs both strings: with the artist or the title
  absent it dereferences a null pointer whatever the other arguments are, because
  the two calls of \<^verbatim>\<open>strlen\<close> come first. For present strings (of a length that
  fits an \<open>int\<close>) the placeholder branch is taken exactly when both are empty.
  \<open>get_status\<close> hands the results of the two extractions to \<open>format_output\<close> as
  they are, so a reply from which a field cannot be extracted ends in that
  null dereference.
\<close>

theorem format_output_requires_strings:
  "(artist = None \<or> title = None \<longrightarrow>
      format_output se artist title max_artist_length max_title_length max_length template marker
        = NullDeref)
   \<and> (\<forall>a t. artist = Some a \<and> title = Some t
         \<and> fits_int (int (length a)) \<and> fits_int (int (length t)) \<longrightarrow>
         (select_branch a t max_length template = PlaceholderBranch) = (a = [] \<and> t = []))
   \<and> (get_song_title_from_metadata reply = None \<or> get_song_artist_from_metadata reply = None
        \<longrightarrow> get_status se (Reply reply) max_artist_length max_title_length max_length
              template marker = NullDeref)"
proof (intro conjI impI allI)
  assume "artist = None \<or> title = None"
  then show "format_output se artist title max_artist_length max_title_length max_length
      template marker = NullDeref"
    by (auto simp: format_output_def split: option.splits)
next
  fix a t
  assume "artist = Some a \<and> title = Some t
         \<and> fits_int (int (length a)) \<and> fits_int (int (length t))"
  then show "(select_branch a t max_length template = PlaceholderBranch) = (a = [] \<and> t = [])"
    by (simp add: select_branch_placeholder_iff)
next
  assume "get_song_title_from_metadata reply = None
            \<or> get_song_artist_from_metadata reply = None"
  then show "get_status se (Reply reply) max_artist_length max_title_length max_length
              template marker = NullDeref"
    by (auto simp: get_status_def format_output_def split: option.splits)
qed

theorem format_output_requires_strings_witness:
  "format_output False None (Some ''Sing For The Moment'') 10 10 30 ''%artist%: %title%'' ''...''
     = NullDeref
   \<and> fits_int (int (length ''''))
   \<and> select_branch '''' '''' 30 ''%artist%: %title%'' = PlaceholderBranch
   \<and> get_song_title_from_metadata [DVariant (DArray [])] = None
   \<and> get_status False (Reply [DVariant (DArray [])]) 10 10 30 ''%artist%: %title%'' ''...''
     = NullDeref"
proof -
  have f: "fits_int (int (length ''''))"
    by (simp add: fits_int_def INT_MAX_def)
  note th = format_output_requires_strings
  have 1: "format_output False None (Some ''Sing For The Moment'') 10 10 30
      ''%artist%: %title%'' ''...'' = NullDeref"
    using th [of None "Some ''Sing For The Moment''" False 10 10 30 "''%artist%: %title%''" "''...''"]
    by blast
  have 2: "select_branch '''' '''' 30 ''%artist%: %title%'' = PlaceholderBranch"
    using th [of "Some ''''" "Some ''''" False 10 10 30 "''%artist%: %title%''" "''...''"] f
    by blast
  have 3: "get_status False (Reply [DVariant (DArray [])]) 10 10 30 ''%artist%: %title%'' ''...''
     = NullDeref"
    using th [of None None False 10 10 30 "''%artist%: %title%''" "''...''"
        "[DVariant (DArray [])]"] empty_reply_has_no_title
    by blast
  from f 1 2 3 empty_reply_has_no_title show ?thesis by blast
qed

subsection \<open>Extraction of the title and the artist\<close>

lemma step_to_key_skip:
  assumes "\<forall>v. e \<noteq> DDictEntry (DString key) v"
  shows "iter_try_step_to_key (e # rest) key = iter_try_step_to_key rest key"
proof (cases e)
  case (DDictEntry k v)
  with assms show ?thesis by (cases k) auto
qed simp_all

lemma step_to_key_first:
  assumes "\<forall>v'. DDictEntry (DString key) v' \<notin> set pre"
  shows "iter_try_step_to_key (pre @ DDictEntry (DString key) v # post) key = Some [v]"
  using assms
proof (induction pre)
  case Nil
  show ?case by simp
next
  case (Cons e pre)
  from Cons.prems have "\<forall>v'. e \<noteq> DDictEntry (DString key) v'" by auto
  then have "iter_try_step_to_key ((e # pre) @ DDictEntry (DString key) v # post) key
               = iter_try_step_to_key (pre @ DDictEntry (DString key) v # post) key"
    by (simp add: step_to_key_skip del: iter_try_step_to_key.simps)
  with Cons show ?case by simp
qed

lemma step_to_key_found:
  assumes "iter_try_step_to_key entries key = Some it"
  shows "\<exists>pre v post. entries = pre @ DDictEntry (DString key) v # post \<and> it = [v]
           \<and> (\<forall>v'. DDictEntry (DString key) v' \<notin> set pre)"
  using assms
proof (induction entries)
  case Nil
  then show ?case by simp
next
  case (Cons e entries)
  show ?case
  proof (cases "\<exists>v. e = DDictEntry (DString key) v")
    case True
    then obtain v where e: "e = DDictEntry (DString key) v" by blast
    with Cons.prems have "it = [v]" by simp
    with e have "e # entries = [] @ DDictEntry (DString key) v # entries \<and> it = [v]
        \<and> (\<forall>v'. DDictEntry (DString key) v' \<notin> set [])"
      by simp
    then show ?thesis by blast
  next
    case False
    then have skip: "\<forall>v. e \<noteq> DDictEntry (DString key) v" by blast
    with Cons.prems have "iter_try_step_to_key entries key = Some it"
      by (simp add: step_to_key_skip del: iter_try_step_to_key.simps)
    from Cons.IH [OF this] obtain pre v post where
      "entries = pre @ DDictEntry (DString key) v # post" and "it = [v]"
      and "\<forall>v'. DDictEntry (DString key) v' \<notin> set pre"
      by blast
    with skip have "e # entries = (e # pre) @ DDictEntry (DString key) v # post \<and> it = [v]
        \<and> (\<forall>v'. DDictEntry (DString key) v' \<notin> set (e # pre))"
      by auto
    then show ?thesis by blast
  qed
qed

lemma step_to_key_Some_iff:
  "(iter_try_step_to_key entries key = Some it)
     = (\<exists>pre v post. entries = pre @ DDictEntry (DString key) v # post \<and> it = [v]
          \<and> (\<forall>v'. DDictEntry (DString key) v' \<notin> set pre))"
  using step_to_key_found [of entries key it] step_to_key_first [of key] by blast

lemma step_into_variant:
  "(iter_try_step_into_type it DBUS_TYPE_VARIANT = Some it') =
     (\<exists>v rest. it = DVariant v # rest \<and> it' = [v])"
proof (cases it)
  case Nil
  then show ?thesis by simp
next
  case (Cons x xs)
  then show ?thesis by (cases x) auto
qed

lemma step_into_array:
  "(iter_try_step_into_type it DBUS_TYPE_ARRAY = Some it') =
     (\<exists>vs rest. it = DArray vs # rest \<and> it' = vs)"
proof (cases it)
  case Nil
  then show ?thesis by simp
next
  case (Cons x xs)
  then show ?thesis by (cases x) auto
qed

lemma get_string_Some_iff:
  "(iter_get_string it = Some s) = (\<exists>rest. it = DString s # rest)"
  by (cases it rule: iter_get_string.cases) auto

lemma title_Some_iff:
  "(get_song_title_from_metadata msg = Some s) =
     (\<exists>entries rest pre post.
        msg = DVariant (DArray entries) # rest
        \<and> entries = pre @ DDictEntry (DString METADATA_TITLE_KEY) (DVariant (DString s)) # post
        \<and> (\<forall>v. DDictEntry (DString METADATA_TITLE_KEY) v \<notin> set pre))"
  (is "?L = ?R")
proof
  assume ?L
  then obtain it1 it2 it3 it4 where
    1: "iter_try_step_into_type msg DBUS_TYPE_VARIANT = Some it1"
    and 2: "iter_try_step_into_type it1 DBUS_TYPE_ARRAY = Some it2"
    and 3: "iter_try_step_to_key it2 METADATA_TITLE_KEY = Some it3"
    and 4: "iter_try_step_into_type it3 DBUS_TYPE_VARIANT = Some it4"
    and 5: "iter_get_string it4 = Some s"
    by (auto simp: get_song_title_from_metadata_def split: option.splits)
  from 1 obtain v rest where m: "msg = DVariant v # rest" and i1: "it1 = [v]"
    unfolding step_into_variant by blast
  from 2 i1 have v: "v = DArray it2" unfolding step_into_array by auto
  from 3 obtain pre w post where
    e: "it2 = pre @ DDictEntry (DString METADATA_TITLE_KEY) w # post" and i3: "it3 = [w]"
    and n: "\<forall>v'. DDictEntry (DString METADATA_TITLE_KEY) v' \<notin> set pre"
    unfolding step_to_key_Some_iff by blast
  from 4 i3 obtain x where w: "w = DVariant x" and i4: "it4 = [x]"
    unfolding step_into_variant by auto
  from 5 i4 have "x = DString s" unfolding get_string_Some_iff by auto
  with m v e w n show ?R by blast
next
  assume ?R
  then obtain entries rest pre post where
    m: "msg = DVariant (DArray entries) # rest"
    and e: "entries = pre @ DDictEntry (DString METADATA_TITLE_KEY) (DVariant (DString s)) # post"
    and n: "\<forall>v. DDictEntry (DString METADATA_TITLE_KEY) v \<notin> set pre"
    by blast
  have "iter_try_step_to_key entries METADATA_TITLE_KEY = Some [DVariant (DString s)]"
    unfolding e by (rule step_to_key_first [OF n])
  with m show ?L by (simp add: get_song_title_from_metadata_def)
qed

lemma artist_Some_iff:
  "(get_song_artist_from_metadata msg = Some s) =
     (\<exists>entries rest pre post more.
        msg = DVariant (DArray entries) # rest
        \<and> entries = pre @ DDictEntry (DString METADATA_ARTIST_KEY)
                            (DVariant (DArray (DString s # more))) # post
        \<and> (\<forall>v. DDictEntry (DString METADATA_ARTIST_KEY) v \<notin> set pre))"
  (is "?L = ?R")
proof
  assume ?L
  then obtain it1 it2 it3 it4 it5 where
    1: "iter_try_step_into_type msg DBUS_TYPE_VARIANT = Some it1"
    and 2: "iter_try_step_into_type it1 DBUS_TYPE_ARRAY = Some it2"
    and 3: "iter_try_step_to_key it2 METADATA_ARTIST_KEY = Some it3"
    and 4: "iter_try_step_into_type it3 DBUS_TYPE_VARIANT = Some it4"
    and 5: "iter_try_step_into_type it4 DBUS_TYPE_ARRAY = Some it5"
    and 6: "iter_get_string it5 = Some s"
    by (auto simp: get_song_artist_from_metadata_def split: option.splits)
  from 1 obtain v rest where m: "msg = DVariant v # rest" and i1: "it1 = [v]"
    unfolding step_into_variant by blast
  from 2 i1 have v: "v = DArray it2" unfolding step_into_array by auto
  from 3 obtain pre w post where
    e: "it2 = pre @ DDictEntry (DString METADATA_ARTIST_KEY) w # post" and i3: "it3 = [w]"
    and n: "\<forall>v'. DDictEntry (DString METADATA_ARTIST_KEY) v' \<notin> set pre"
    unfolding step_to_key_Some_iff by blast
  from 4 i3 obtain x where w: "w = DVariant x" and i4: "it4 = [x]"
    unfolding step_into_variant by auto
  from 5 i4 have x: "x = DArray it5" unfolding step_into_array by auto
  from 6 obtain more where "it5 = DString s # more" unfolding get_string_Some_iff by blast
  with m v e w x n show ?R by blast
next
  assume ?R
  then obtain entries rest pre post more where
    m: "msg = DVariant (DArray entries) # rest"
    and e: "entries = pre @ DDictEntry (DString METADATA_ARTIST_KEY)
                              (DVariant (DArray (DString s # more))) # post"
    and n: "\<forall>v. DDictEntry (DString METADATA_ARTIST_KEY) v \<notin> set pre"
    by blast
  have "iter_try_step_to_key entries METADATA_ARTIST_KEY
          = Some [DVariant (DArray (DString s # more))]"
    unfolding e by (rule step_to_key_first [OF n])
  with m show ?L by (simp add: get_song_artist_from_metadata_def)
qed

text \<open>
  Claim C7. For every reply, the title extraction yields the string \<open>s\<close> exactly
  when the reply starts with a variant around an array whose first dict entry
  with the key \<open>xesam:title\<close> has a variant around the string \<open>s\<close> as its value;
  the artist extraction yields \<open>s\<close> exactly when the first dict entry with the
  key \<open>xesam:artist\<close> has a variant around an array that starts with the string
  \<open>s\<close>. In every other case (a wrapper of another type, no such key, a terminal
  node that is no string, an empty artist array) the result is \<open>None\<close>; the
  functions have no other outcome.
\<close>

theorem extraction_navigates:
  "((get_song_title_from_metadata msg = Some s) =
      (\<exists>entries rest pre post.
         msg = DVariant (DArray entries) # rest
         \<and> entries = pre @ DDictEntry (DString METADATA_TITLE_KEY) (DVariant (DString s)) # post
         \<and> (\<forall>v. DDictEntry (DString METADATA_TITLE_KEY) v \<notin> set pre)))
   \<and> ((get_song_artist_from_metadata msg = Some s) =
      (\<exists>entries rest pre post more.
         msg = DVariant (DArray entries) # rest
         \<and> entries = pre @ DDictEntry (DString METADATA_ARTIST_KEY)
                             (DVariant (DArray (DString s # more))) # post
         \<and> (\<forall>v. DDictEntry (DString METADATA_ARTIST_KEY) v \<notin> set pre)))"
  using title_Some_iff [of msg s] artist_Some_iff [of msg s] by (rule conjI)

subsection \<open>Token substitution\<close>

lemma title_template_free_prefix:
  "CHR ''%'' \<notin> set u \<Longrightarrow> title_template (u @ s) = title_template s"
  by (induction u) (auto simp: TOKEN_TITLE_def)

lemma title_template_token:
  "title_template (TOKEN_TITLE @ s) = title_template s"
  by (simp add: TOKEN_TITLE_def)

lemma replace_artist_over_title:
  assumes "\<not> prefix ''artist%'' rest"
  shows "str_replace_all (TOKEN_TITLE @ rest) TOKEN_ARTIST a
           = TOKEN_TITLE @ str_replace_all rest TOKEN_ARTIST a"
  using assms by (simp add: TOKEN_TITLE_def TOKEN_ARTIST_def)

lemma prefix_drop: "prefix p s \<Longrightarrow> s = p @ drop (length p) s"
  by (auto simp: prefix_def)

lemma str_replace_all_at_token:
  assumes "tok \<noteq> []" and "prefix tok s"
  shows "str_replace_all s tok repl = repl @ str_replace_all (drop (length tok) s) tok repl"
proof (cases s)
  case Nil
  with assms show ?thesis by simp
next
  case (Cons c cs)
  with assms show ?thesis by simp
qed

lemma tokens_not_empty: "TOKEN_ARTIST \<noteq> []" "TOKEN_TITLE \<noteq> []"
  by (simp_all add: TOKEN_ARTIST_def TOKEN_TITLE_def)

lemma artist_pass_leaves_title_template:
  assumes "CHR ''%'' \<notin> set a"
  shows "plain_template s \<Longrightarrow> title_template (str_replace_all s TOKEN_ARTIST a)"
proof (induction s rule: plain_template.induct)
  case 1
  show ?case by simp
next
  case (2 c cs)
  show ?case
  proof (cases "prefix TOKEN_ARTIST (c # cs)")
    case True
    with "2.prems" have "plain_template (drop (length TOKEN_ARTIST) (c # cs))"
      by simp
    with True have "title_template (str_replace_all (drop (length TOKEN_ARTIST) (c # cs))
        TOKEN_ARTIST a)"
      by (rule "2.IH"(1))
    moreover from True have "str_replace_all (c # cs) TOKEN_ARTIST a
        = a @ str_replace_all (drop (length TOKEN_ARTIST) (c # cs)) TOKEN_ARTIST a"
      by (rule str_replace_all_at_token [OF tokens_not_empty(1)])
    ultimately show ?thesis using assms by (simp add: title_template_free_prefix)
  next
    case notA: False
    show ?thesis
    proof (cases "prefix TOKEN_TITLE (c # cs)")
      case True
      define rest where "rest = drop (length TOKEN_TITLE) (c # cs)"
      from True have s: "c # cs = TOKEN_TITLE @ rest"
        unfolding rest_def by (rule prefix_drop)
      from "2.prems" notA True have n: "\<not> prefix ''artist%'' rest"
        and p: "plain_template rest"
        unfolding rest_def by simp_all
      from notA True n p "2.IH"(2)
      have "title_template (str_replace_all rest TOKEN_ARTIST a)"
        unfolding rest_def by blast
      then show ?thesis
        unfolding s replace_artist_over_title [OF n] title_template_token .
    next
      case False
      from "2.prems" notA False have c: "c \<noteq> CHR ''%''" and p: "plain_template cs"
        by simp_all
      from notA False p have t: "title_template (str_replace_all cs TOKEN_ARTIST a)"
        by (rule "2.IH"(3))
      from notA have "str_replace_all (c # cs) TOKEN_ARTIST a
          = c # str_replace_all cs TOKEN_ARTIST a"
        by simp
      moreover from c have "\<not> prefix TOKEN_TITLE (c # str_replace_all cs TOKEN_ARTIST a)"
        by (simp add: TOKEN_TITLE_def)
      ultimately show ?thesis using c t by simp
    qed
  qed
qed

lemma title_pass_removes_percent:
  assumes "CHR ''%'' \<notin> set t"
  shows "title_template s \<Longrightarrow> CHR ''%'' \<notin> set (str_replace_all s TOKEN_TITLE t)"
proof (induction s rule: title_template.induct)
  case 1
  show ?case by simp
next
  case (2 c cs)
  show ?case
  proof (cases "prefix TOKEN_TITLE (c # cs)")
    case True
    with "2.prems" have "title_template (drop (length TOKEN_TITLE) (c # cs))"
      by simp
    with True have "CHR ''%'' \<notin> set (str_replace_all (drop (length TOKEN_TITLE) (c # cs))
        TOKEN_TITLE t)"
      by (rule "2.IH"(1))
    moreover from True have "str_replace_all (c # cs) TOKEN_TITLE t
        = t @ str_replace_all (drop (length TOKEN_TITLE) (c # cs)) TOKEN_TITLE t"
      by (rule str_replace_all_at_token [OF tokens_not_empty(2)])
    ultimately show ?thesis using assms by simp
  next
    case False
    from "2.prems" False have c: "c \<noteq> CHR ''%''" and p: "title_template cs"
      by simp_all
    from False p have "CHR ''%'' \<notin> set (str_replace_all cs TOKEN_TITLE t)"
      by (rule "2.IH"(2))
    with False c show ?thesis by simp
  qed
qed

lemma str_trunc_set:
  "str_trunc s max_len marker = Some r \<Longrightarrow> set r \<subseteq> set s \<union> set marker"
  by (auto simp: str_trunc_def split: if_splits dest: in_set_takeD)

lemma percent_free_no_token:
  assumes "CHR ''%'' \<notin> set out"
  shows "\<not> sublist TOKEN_ARTIST out \<and> \<not> sublist TOKEN_TITLE out"
proof -
  have "CHR ''%'' \<in> set TOKEN_ARTIST" and "CHR ''%'' \<in> set TOKEN_TITLE"
    by (simp_all add: TOKEN_ARTIST_def TOKEN_TITLE_def)
  with assms show ?thesis by (meson set_mono_sublist subsetD)
qed

lemma substitution_percent_free:
  assumes "plain_template template" and "CHR ''%'' \<notin> set a" and "CHR ''%'' \<notin> set t"
  shows "CHR ''%'' \<notin> set (str_replace_all (str_replace_all template TOKEN_ARTIST a) TOKEN_TITLE t)"
  by (rule title_pass_removes_percent [OF assms(3) artist_pass_leaves_title_template [OF assms(2,1)]])

lemma format_output_percent_free:
  assumes "plain_template template"
    and "CHR ''%'' \<notin> set artist" and "CHR ''%'' \<notin> set title" and "CHR ''%'' \<notin> set marker"
    and "format_output se (Some artist) (Some title) max_artist_length max_title_length
           max_length template marker = Output out"
  shows "CHR ''%'' \<notin> set out"
proof (cases "select_branch artist title max_length template")
  case PlaceholderBranch
  with assms(5) have "out = DEFAULT_PLACEHOLDER" by (simp add: format_output_def)
  then show ?thesis by (simp add: DEFAULT_PLACEHOLDER_def)
next
  case TruncationBranch
  with assms(5) obtain ta tt where
    ta: "str_trunc artist max_artist_length marker = Some ta"
    and tt: "str_trunc title max_title_length marker = Some tt"
    and o: "str_trunc (str_replace_all (str_replace_all template TOKEN_ARTIST ta) TOKEN_TITLE tt)
              max_length marker = Some out"
    by (auto simp: format_output_def truncation_branch_def Let_def
        split: option.splits if_splits)
  from str_trunc_set [OF ta] assms(2,4) have fa: "CHR ''%'' \<notin> set ta" by auto
  from str_trunc_set [OF tt] assms(3,4) have ft: "CHR ''%'' \<notin> set tt" by auto
  from str_trunc_set [OF o] substitution_percent_free [OF assms(1) fa ft] assms(4)
  show ?thesis by auto
next
  case SubstitutionBranch
  with assms(5) have "out = str_replace_all (str_replace_all template TOKEN_ARTIST artist)
      TOKEN_TITLE title"
    by (simp add: format_output_def)
  with substitution_percent_free [OF assms(1,2,3)] show ?thesis by simp
qed

text \<open>
  Claim C9, as the code has it. The substitution runs as two passes, all artist
  tokens first and then all title tokens of the result. When the template is
  made only of text without \<open>%\<close>, artist tokens and title tokens, with no title
  token directly followed by \<open>artist%\<close>, and neither the artist nor the title
  nor the marker contains \<open>%\<close>, then no occurrence of either token remains in a
  string that \<open>format_output\<close> returns.
\<close>

theorem no_token_remains:
  assumes "plain_template template"
    and "CHR ''%'' \<notin> set artist" and "CHR ''%'' \<notin> set title" and "CHR ''%'' \<notin> set marker"
    and "format_output se (Some artist) (Some title) max_artist_length max_title_length
           max_length template marker = Output out"
  shows "\<not> sublist TOKEN_ARTIST out \<and> \<not> sublist TOKEN_TITLE out"
  by (rule percent_free_no_token [OF format_output_percent_free [OF assms]])

theorem no_token_remains_witness:
  "plain_template ''%artist%: %title%''
   \<and> CHR ''%'' \<notin> set ''Eminem'' \<and> CHR ''%'' \<notin> set ''Sing For The Moment''
   \<and> CHR ''%'' \<notin> set ''...''
   \<and> format_output False (Some ''Eminem'') (Some ''Sing For The Moment'') 10 10 20
        ''%artist%: %title%'' ''...'' = Output ''Eminem: Sing Fo...''
   \<and> \<not> sublist TOKEN_ARTIST ''Eminem: Sing Fo...''
   \<and> \<not> sublist TOKEN_TITLE ''Eminem: Sing Fo...''"
proof -
  have p: "plain_template ''%artist%: %title%''"
    by (simp add: TOKEN_ARTIST_def TOKEN_TITLE_def)
  have a: "CHR ''%'' \<notin> set ''Eminem''" and t: "CHR ''%'' \<notin> set ''Sing For The Moment''"
    and m: "CHR ''%'' \<notin> set ''...''"
    by simp_all
  have f: "format_output False (Some ''Eminem'') (Some ''Sing For The Moment'') 10 10 20
        ''%artist%: %title%'' ''...'' = Output ''Eminem: Sing Fo...''"
    by (simp add: format_output_def truncation_branch_def example_branch_20 example_truncations
        TOKEN_ARTIST_def TOKEN_TITLE_def)
  from no_token_remains [OF p a t m f] p a t m f show ?thesis by blast
qed

text \<open>
  A title that carries the artist token keeps it in the output, and an artist
  that carries the title token has it replaced by the second pass: the text
  inserted by the first pass is scanned again, and a token can remain.
\<close>

theorem token_remains_counterexample:
  "format_output False (Some ''A'') (Some ''%artist%'') INT_MAX INT_MAX INT_MAX ''%title%'' ''...''
     = Output ''%artist%''
   \<and> sublist TOKEN_ARTIST ''%artist%''
   \<and> format_output False (Some ''%title%'') (Some ''X'') INT_MAX INT_MAX INT_MAX ''%artist%'' ''...''
     = Output ''X''"
  by (simp add: format_output_def select_branch_def truncation_branch_def str_trunc_def
      strlen_def c_int_def INT_MAX_def TOKEN_ARTIST_def TOKEN_TITLE_def)


end
